theory Spec2Isabelle
  imports Main "HOL-Library.Word" "HOL-Library.Sublist"
begin

unbundle bit_operations_syntax

section \<open>Status of a Certificate: cmd/ctl/pkg/status/certificate/types.go\<close>

text \<open>
  A shallow embedding of the status builder and of its renderers. A Go pointer that may
  be nil is an \<open>option\<close>, the \<open>error\<close> interface is a value carrying its message, a
  builder method takes the builder and returns the updated one, and the bytes that
  \<open>CRStatus.String\<close> writes to the standard output are returned beside its result.
\<close>

subsection \<open>The Go library as far as this file uses it\<close>

type_synonym byte = "8 word"

text \<open>An \<open>error\<close> is what its method \<open>Error()\<close> returns.\<close>

datatype error = errorString (error_Error: string)

text \<open>\<open>strings.Join\<close>.\<close>

fun strings_Join :: "string list \<Rightarrow> string \<Rightarrow> string" where
  "strings_Join [] sep = []"
| "strings_Join [a] sep = a"
| "strings_Join (a # b # elems) sep = a @ sep @ strings_Join (b # elems) sep"

text \<open>The verb \<open>%d\<close>: decimal digits, a minus sign before a negative number.\<close>

function decimal :: "nat \<Rightarrow> string" where
  "decimal n = (if n < 10 then [''0123456789'' ! n]
                else decimal (n div 10) @ [''0123456789'' ! (n mod 10)])"
  by pat_completeness auto
termination
  by (relation "measure id") auto

declare decimal.simps [simp del]

definition fmt_d :: "int \<Rightarrow> string" where
  "fmt_d i = (if i < 0 then CHR ''-'' # decimal (nat (- i)) else decimal (nat i))"

definition hextable :: string where
  "hextable = ''0123456789abcdef''"

text \<open>
  \<open>utf8.DecodeRuneInString\<close>: the code point that the string starts with and the number
  of its bytes, or \<open>RuneError\<close> and the width 1 where the bytes are no shortest UTF-8
  encoding of a code point (a surrogate and a value beyond 0x10FFFF are none).
\<close>

definition RuneError :: nat where
  "RuneError = 0xFFFD"

definition DecodeRuneInString :: "string \<Rightarrow> nat \<times> nat" where
  "DecodeRuneInString s =
     (let b = map of_char s :: nat list; n = length b
      in if n < 1 then (RuneError, 0)
         else
           (let s0 = b ! 0
            in if s0 < 0x80 then (s0, 1)
               else if s0 < 0xC2 \<or> 0xF4 < s0 then (RuneError, 1)
               else
                 (let sz = (if s0 < 0xE0 then 2 else if s0 < 0xF0 then 3 else 4 :: nat);
                      lo = (if s0 = 0xE0 then 0xA0 else if s0 = 0xF0 then 0x90 else 0x80);
                      hi = (if s0 = 0xED then 0x9F else if s0 = 0xF4 then 0x8F else 0xBF)
                  in if n < sz then (RuneError, 1)
                     else if b ! 1 < lo \<or> hi < b ! 1 then (RuneError, 1)
                     else if sz \<le> 2 then (s0 mod 32 * 64 + b ! 1 mod 64, 2)
                     else if b ! 2 < 0x80 \<or> 0xBF < b ! 2 then (RuneError, 1)
                     else if sz \<le> 3
                     then (s0 mod 16 * 4096 + b ! 1 mod 64 * 64 + b ! 2 mod 64, 3)
                     else if b ! 3 < 0x80 \<or> 0xBF < b ! 3 then (RuneError, 1)
                     else (s0 mod 8 * 262144 + b ! 1 mod 64 * 4096 + b ! 2 mod 64 * 64
                             + b ! 3 mod 64, 4))))"

text \<open>
  \<open>unicode.IsPrint\<close>: in ASCII the characters from the space to the tilde. Its tables for
  the code points from 0x80 up are not written out here: the functions that need them
  take the predicate as their argument \<open>IsPrint\<close>.
\<close>

definition unicode_IsPrint :: "(nat \<Rightarrow> bool) \<Rightarrow> nat \<Rightarrow> bool" where
  "unicode_IsPrint IsPrint r = (if r < 0x80 then 0x20 \<le> r \<and> r < 0x7F else IsPrint r)"

text \<open>
  What \<open>strconv.Quote\<close> writes for one code point \<open>r\<close> whose bytes in the string are
  \<open>enc\<close>: a double quote and a backslash after a backslash, a printable code point as its
  bytes, and else an escape sequence, which is a letter after a backslash where Go has
  one, the two digits of the byte after a backslash and an x below the space and for
  0x7f, and the four or eight digits of the code point after a backslash and a u or U.
\<close>

definition appendEscapedRune :: "(nat \<Rightarrow> bool) \<Rightarrow> nat \<Rightarrow> string \<Rightarrow> string" where
  "appendEscapedRune IsPrint r enc =
     (if r = 0x22 \<or> r = 0x5C then [CHR 0x5C, char_of r]
      else if unicode_IsPrint IsPrint r then enc
      else if r = 0x07 then [CHR 0x5C, CHR ''a'']
      else if r = 0x08 then [CHR 0x5C, CHR ''b'']
      else if r = 0x0C then [CHR 0x5C, CHR ''f'']
      else if r = 0x0A then [CHR 0x5C, CHR ''n'']
      else if r = 0x0D then [CHR 0x5C, CHR ''r'']
      else if r = 0x09 then [CHR 0x5C, CHR ''t'']
      else if r = 0x0B then [CHR 0x5C, CHR ''v'']
      else if r < 0x20 \<or> r = 0x7F
      then [CHR 0x5C, CHR ''x'', hextable ! (r div 16), hextable ! (r mod 16)]
      else if r < 0x10000
      then [CHR 0x5C, CHR ''u''] @ map (\<lambda>k. hextable ! (r div 16 ^ k mod 16)) [3, 2, 1, 0]
      else [CHR 0x5C, CHR ''U'']
             @ map (\<lambda>k. hextable ! (r div 16 ^ k mod 16)) [7, 6, 5, 4, 3, 2, 1, 0])"

text \<open>
  The loop of \<open>strconv.Quote\<close> over the string that is left: it decodes a code point
  where the first byte is not ASCII, writes a byte that starts no valid encoding as its
  two digits after a backslash and an x, and goes on after the bytes of the code point.
\<close>

function quote_loop :: "(nat \<Rightarrow> bool) \<Rightarrow> string \<Rightarrow> string" where
  "quote_loop IsPrint [] = []"
| "quote_loop IsPrint (c # s) =
     (let (r, width) =
            (if (of_char c :: nat) \<ge> 0x80 then DecodeRuneInString (c # s) else (of_char c, 1))
      in (if width = 1 \<and> r = RuneError
          then [CHR 0x5C, CHR ''x'', hextable ! (of_char c div 16), hextable ! (of_char c mod 16)]
          else appendEscapedRune IsPrint r (take width (c # s)))
         @ quote_loop IsPrint (drop (width - 1) s))"
  by pat_completeness auto
termination
  by (relation "measure (\<lambda>(IsPrint, s). length s)") auto

definition strconv_Quote :: "(nat \<Rightarrow> bool) \<Rightarrow> string \<Rightarrow> string" where
  "strconv_Quote IsPrint s = CHR 0x22 # quote_loop IsPrint s @ [CHR 0x22]"

text \<open>
  \<open>fmt.Sprintf\<close> for the verbs of this file: \<open>%s\<close> on a string (an error and a value
  with a \<open>String\<close> method are passed as their text), \<open>%d\<close> on an integer, and \<open>%q\<close> on a
  string, which writes what \<open>strconv.Quote\<close> writes for it: that argument is passed as
  \<open>Quoted\<close>, the string with its quoted text. Every call of the file gives one argument
  to each verb.
\<close>

datatype fmt_arg = Str string | Num int | Quoted string string

fun fmt_verb :: "char \<Rightarrow> fmt_arg \<Rightarrow> string" where
  "fmt_verb v (Str s) =
     (if v = CHR ''s'' then s
      else ''%!'' @ [v] @ ''(string='' @ s @ '')'')"
| "fmt_verb v (Num i) =
     (if v = CHR ''d'' then fmt_d i
      else ''%!'' @ [v] @ ''(int='' @ fmt_d i @ '')'')"
| "fmt_verb v (Quoted s q) =
     (if v = CHR ''q'' then q
      else if v = CHR ''s'' then s
      else ''%!'' @ [v] @ ''(string='' @ s @ '')'')"

definition fmt_q :: "(nat \<Rightarrow> bool) \<Rightarrow> string \<Rightarrow> fmt_arg" where
  "fmt_q IsPrint s = Quoted s (strconv_Quote IsPrint s)"

fun Sprintf :: "string \<Rightarrow> fmt_arg list \<Rightarrow> string" where
  "Sprintf (c # v # format) (a # args) =
     (if c = CHR ''%'' then fmt_verb v a @ Sprintf format args
      else c # Sprintf (v # format) (a # args))"
| "Sprintf format args = format"

definition fmt_Errorf :: "string \<Rightarrow> fmt_arg list \<Rightarrow> error" where
  "fmt_Errorf format args = errorString (Sprintf format args)"

text \<open>\<open>fmt.Println\<close> of a byte slice: the bytes in decimal between brackets, and a newline.\<close>

definition fmt_Println_bytes :: "string \<Rightarrow> string" where
  "fmt_Println_bytes b =
     ''['' @ strings_Join (map (\<lambda>c. decimal (of_char c)) b) '' '' @ '']\<newline>''"

text \<open>\<open>hex.EncodeToString\<close>: two digits of \<open>hextable\<close> for each byte, the high one first.\<close>

fun hex_EncodeToString :: "byte list \<Rightarrow> string" where
  "hex_EncodeToString [] = []"
| "hex_EncodeToString (v # src) =
     hextable ! unat (drop_bit 4 v) # hextable ! unat (v AND 0x0f) # hex_EncodeToString src"

text \<open>
  \<open>big.Int.Bytes\<close>: the absolute value as bytes, the most significant first, with no
  leading zero byte (none at all for 0).
\<close>

function nat_bytes :: "nat \<Rightarrow> byte list" where
  "nat_bytes n = (if n = 0 then [] else nat_bytes (n div 256) @ [of_nat (n mod 256)])"
  by pat_completeness auto
termination
  by (relation "measure id") auto

declare nat_bytes.simps [simp del]

definition big_Int_Bytes :: "int \<Rightarrow> byte list" where
  "big_Int_Bytes x = nat_bytes (nat \<bar>x\<bar>)"

subsection \<open>The objects the builder is given\<close>

text \<open>
  Modelled from the spec: the API types of pkg/apis/certmanager/v1alpha2 (the conditions
  of an Issuer, a ClusterIssuer and a CertificateRequest) are not among the sources. A
  condition is the tuple of type, status, reason and message that the spec gives, and of
  each object the fields that this file reads are kept.
\<close>

type_synonym Time = int

record Condition =
  Type :: string
  Status :: string
  Reason :: string
  Message :: string

record Issuer =
  Name :: string
  Status_Conditions :: "Condition list"

record ClusterIssuer =
  Name :: string
  Status_Conditions :: "Condition list"

record CertificateRequest =
  Name :: string
  Namespace :: string
  Status_Conditions :: "Condition list"

text \<open>The events of the cluster are opaque: only the event describer reads them.\<close>

typedecl Event

record EventList =
  Items :: "Event list"

text \<open>A Secret, with its data by key, and the fields of a parsed X.509 certificate.\<close>

record Secret =
  Name :: string
  Data :: "string \<rightharpoonup> byte list"

record pkix_Name =
  Country :: "string list"
  Organization :: "string list"
  CommonName :: string

record x509_Certificate =
  Issuer :: pkix_Name
  KeyUsage :: int
  ExtKeyUsage :: "int list"
  PublicKeyAlgorithm :: int
  SignatureAlgorithm :: int
  SubjectKeyId :: "byte list"
  AuthorityKeyId :: "byte list"
  SerialNumber :: "int option"

subsection \<open>The status records\<close>

record IssuerStatus =
  Error :: "error option"
  Name :: string
  Kind :: string
  Conditions :: "Condition list"

record SecretStatus =
  Error :: "error option"
  Name :: string
  IssuerCountry :: "string list"
  IssuerOrganisation :: "string list"
  IssuerCommonName :: string
  KeyUsage :: int
  ExtKeyUsage :: "int list"
  PublicKeyAlgorithm :: int
  SignatureAlgorithm :: int
  SubjectKeyId :: "byte list"
  AuthorityKeyId :: "byte list"
  SerialNumber :: "int option"

record CRStatus =
  Error :: "error option"
  Name :: string
  Namespace :: string
  Conditions :: "Condition list"
  Events :: "EventList option"

record CertificateStatusBuilder =
  Name :: string
  Namespace :: string
  CreationTime :: Time
  Conditions :: "Condition list"
  DNSNames :: "string list"
  Events :: "EventList option"
  NotBefore :: "Time option"
  NotAfter :: "Time option"
  RenewalTime :: "Time option"
  IssuerKind :: string
  IssuerStatus :: "IssuerStatus option"
  SecretStatus :: "SecretStatus option"
  CRStatus :: "CRStatus option"

text \<open>A composite literal gives every field it does not name its zero value.\<close>

definition zero_IssuerStatus :: IssuerStatus where
  "zero_IssuerStatus =
     \<lparr>IssuerStatus.Error = None, Name = [], Kind = [], Conditions = []\<rparr>"

definition zero_SecretStatus :: SecretStatus where
  "zero_SecretStatus =
     \<lparr>SecretStatus.Error = None, Name = [], IssuerCountry = [], IssuerOrganisation = [],
      IssuerCommonName = [], KeyUsage = 0, ExtKeyUsage = [], PublicKeyAlgorithm = 0,
      SignatureAlgorithm = 0, SubjectKeyId = [], AuthorityKeyId = [], SerialNumber = None\<rparr>"

definition zero_CRStatus :: CRStatus where
  "zero_CRStatus =
     \<lparr>CRStatus.Error = None, Name = [], Namespace = [], Conditions = [], Events = None\<rparr>"

subsection \<open>The builder\<close>

definition withEvents ::
  "CertificateStatusBuilder \<Rightarrow> EventList option \<Rightarrow> CertificateStatusBuilder" where
  "withEvents builder events = builder\<lparr>CertificateStatusBuilder.Events := events\<rparr>"

definition withIssuerKind ::
  "CertificateStatusBuilder \<Rightarrow> string \<Rightarrow> CertificateStatusBuilder" where
  "withIssuerKind builder kind = builder\<lparr>IssuerKind := kind\<rparr>"

definition withIssuer ::
  "CertificateStatusBuilder \<Rightarrow> Issuer option \<Rightarrow> error option \<Rightarrow> CertificateStatusBuilder" where
  "withIssuer builder issuer err =
     (case err of
        Some e \<Rightarrow> builder\<lparr>IssuerStatus := Some (zero_IssuerStatus\<lparr>IssuerStatus.Error := Some e\<rparr>)\<rparr>
      | None \<Rightarrow>
          (case issuer of
             None \<Rightarrow> builder
           | Some i \<Rightarrow>
               builder\<lparr>IssuerStatus := Some (zero_IssuerStatus
                 \<lparr>IssuerStatus.Name := Issuer.Name i, Kind := ''Issuer'',
                  IssuerStatus.Conditions := Issuer.Status_Conditions i\<rparr>)\<rparr>))"

definition withClusterIssuer ::
  "CertificateStatusBuilder \<Rightarrow> ClusterIssuer option \<Rightarrow> error option
     \<Rightarrow> CertificateStatusBuilder" where
  "withClusterIssuer builder clusterIssuer err =
     (case err of
        Some e \<Rightarrow> builder\<lparr>IssuerStatus := Some (zero_IssuerStatus\<lparr>IssuerStatus.Error := Some e\<rparr>)\<rparr>
      | None \<Rightarrow>
          (case clusterIssuer of
             None \<Rightarrow> builder
           | Some i \<Rightarrow>
               builder\<lparr>IssuerStatus := Some (zero_IssuerStatus
                 \<lparr>IssuerStatus.Name := ClusterIssuer.Name i, Kind := ''ClusterIssuer'',
                  IssuerStatus.Conditions := ClusterIssuer.Status_Conditions i\<rparr>)\<rparr>))"

text \<open>
  \<open>pki.DecodeX509CertificateBytes\<close> is not among the sources: \<open>withSecret\<close> takes it as
  an argument, after the predicate \<open>IsPrint\<close> that \<open>%q\<close> consults. A key that the data
  of the Secret does not have reads as the empty slice.
\<close>

definition withSecret ::
  "(nat \<Rightarrow> bool) \<Rightarrow> (byte list \<Rightarrow> error + x509_Certificate) \<Rightarrow> CertificateStatusBuilder
     \<Rightarrow> Secret option \<Rightarrow> error option \<Rightarrow> CertificateStatusBuilder" where
  "withSecret IsPrint DecodeX509CertificateBytes builder secret err =
     (case err of
        Some e \<Rightarrow> builder\<lparr>SecretStatus := Some (zero_SecretStatus\<lparr>SecretStatus.Error := Some e\<rparr>)\<rparr>
      | None \<Rightarrow>
          (case secret of
             None \<Rightarrow> builder
           | Some s \<Rightarrow>
               (let certData = (case Data s ''tls.crt'' of None \<Rightarrow> [] | Some d \<Rightarrow> d)
                in if length certData = 0
                   then builder\<lparr>SecretStatus := Some (zero_SecretStatus
                     \<lparr>SecretStatus.Error := Some (fmt_Errorf
                        ''error: 'tls.crt' of Secret %q is not set\<newline>''
                        [fmt_q IsPrint (Secret.Name s)])\<rparr>)\<rparr>
                   else
                     (case DecodeX509CertificateBytes certData of
                        Inl e \<Rightarrow>
                          builder\<lparr>SecretStatus := Some (zero_SecretStatus
                            \<lparr>SecretStatus.Error := Some (fmt_Errorf
                               ''error when parsing 'tls.crt' of Secret %q: %s\<newline>''
                               [fmt_q IsPrint (Secret.Name s), Str (error_Error e)])\<rparr>)\<rparr>
                      | Inr x509Cert \<Rightarrow>
                          builder\<lparr>SecretStatus := Some
                            \<lparr>SecretStatus.Error = None, Name = Secret.Name s,
                             IssuerCountry = Country (Issuer x509Cert),
                             IssuerOrganisation = Organization (Issuer x509Cert),
                             IssuerCommonName = CommonName (Issuer x509Cert),
                             KeyUsage = x509_Certificate.KeyUsage x509Cert,
                             ExtKeyUsage = x509_Certificate.ExtKeyUsage x509Cert,
                             PublicKeyAlgorithm = x509_Certificate.PublicKeyAlgorithm x509Cert,
                             SignatureAlgorithm = x509_Certificate.SignatureAlgorithm x509Cert,
                             SubjectKeyId = x509_Certificate.SubjectKeyId x509Cert,
                             AuthorityKeyId = x509_Certificate.AuthorityKeyId x509Cert,
                             SerialNumber = x509_Certificate.SerialNumber x509Cert\<rparr>\<rparr>))))"

definition withCR ::
  "CertificateStatusBuilder \<Rightarrow> CertificateRequest option \<Rightarrow> EventList option
     \<Rightarrow> error option \<Rightarrow> CertificateStatusBuilder" where
  "withCR builder req events err =
     (case err of
        Some e \<Rightarrow> builder\<lparr>CRStatus := Some (zero_CRStatus\<lparr>CRStatus.Error := Some e\<rparr>)\<rparr>
      | None \<Rightarrow>
          (case req of
             None \<Rightarrow> builder
           | Some r \<Rightarrow>
               builder\<lparr>CertificateStatusBuilder.Events := events,
                 CRStatus := Some (zero_CRStatus
                   \<lparr>CRStatus.Name := CertificateRequest.Name r,
                    CRStatus.Namespace := CertificateRequest.Namespace r,
                    CRStatus.Conditions := CertificateRequest.Status_Conditions r\<rparr>)\<rparr>))"

subsection \<open>The decoders of key usages\<close>

text \<open>Reading a Go map at a key it does not have gives the zero value, the empty string.\<close>

definition map_index :: "('k \<rightharpoonup> string) \<Rightarrow> 'k \<Rightarrow> string" where
  "map_index m k = (case m k of None \<Rightarrow> [] | Some v \<Rightarrow> v)"

definition keyUsageToStringMap :: "int \<rightharpoonup> string" where
  "keyUsageToStringMap = map_of
     [(1, ''Digital Signature''),
      (2, ''Content Commitment''),
      (4, ''Key Encipherment''),
      (8, ''Data Encipherment''),
      (16, ''Key Agreement''),
      (32, ''Cert Sign''),
      (64, ''CRL Sign''),
      (128, ''Encipher Only''),
      (256, ''Decipher Only'')]"

definition keyUsagePossibleValues :: "int list" where
  "keyUsagePossibleValues = [256, 128, 64, 32, 16, 8, 4, 2, 1]"

definition extKeyUsageStringValues :: "string list" where
  "extKeyUsageStringValues =
     [''Any'', ''Server Authentication'', ''Client Authentication'', ''Code Signing'',
      ''Email Protection'', ''IPSEC End System'', ''IPSEC Tunnel'', ''IPSEC User'',
      ''Time Stamping'', ''OCSP Signing'', ''Microsoft Server Gated Crypto'',
      ''Netscape Server Gated Crypto'', ''Microsoft Commercial Code Signing'',
      ''Microsoft Kernel Code Signing'']"

text \<open>
  The first loop of \<open>keyUsageToString\<close>, over the values that are left: it subtracts a
  value that fits, appends its label, and stops when nothing is left of the usage. The
  subtraction happens only where the usage is at least the value, so it cannot overflow.
\<close>

fun keyUsage_decode :: "int list \<Rightarrow> int \<Rightarrow> string list \<Rightarrow> string list" where
  "keyUsage_decode [] usageInt usageStrings = usageStrings"
| "keyUsage_decode (val # vals) usageInt usageStrings =
     (let (usageInt', usageStrings') =
            (if usageInt \<ge> val
             then (usageInt - val, usageStrings @ [map_index keyUsageToStringMap val])
             else (usageInt, usageStrings))
      in if usageInt' = 0 then usageStrings'
         else keyUsage_decode vals usageInt' usageStrings')"

text \<open>The second loop, from index \<open>i\<close>: it swaps the element at \<open>i\<close> with its opposite.\<close>

function keyUsage_reverse :: "nat \<Rightarrow> string list \<Rightarrow> string list" where
  "keyUsage_reverse i usageStrings =
     (if i < length usageStrings div 2
      then (let opp = length usageStrings - 1 - i
            in keyUsage_reverse (i + 1)
                 (usageStrings[i := usageStrings ! opp, opp := usageStrings ! i]))
      else usageStrings)"
  by pat_completeness auto
termination
  by (relation "measure (\<lambda>(i, usageStrings). length usageStrings div 2 - i)") auto

declare keyUsage_reverse.simps [simp del]

definition keyUsageToString :: "int \<Rightarrow> string" where
  "keyUsageToString usage =
     strings_Join
       (keyUsage_reverse 0 (keyUsage_decode keyUsagePossibleValues usage [])) '', ''"

text \<open>
  The loop of \<open>extKeyUsageToString\<close>, over the codes that are left. The result is the pair
  that the Go function returns: the string, and the error or nil.
\<close>

fun extKeyUsage_loop :: "int list \<Rightarrow> string list \<Rightarrow> string \<times> error option" where
  "extKeyUsage_loop [] extUsageStrings = (strings_Join extUsageStrings '', '', None)"
| "extKeyUsage_loop (extUsage # extUsages) extUsageStrings =
     (if extUsage < 0 \<or> extUsage \<ge> int (length extKeyUsageStringValues)
      then ([], Some (fmt_Errorf
        ''error when converting Extended Usages to string: encountered unknown Extended Usage with code %d''
        [Num extUsage]))
      else extKeyUsage_loop extUsages
             (extUsageStrings @ [extKeyUsageStringValues ! nat extUsage]))"

definition extKeyUsageToString :: "int list \<Rightarrow> string \<times> error option" where
  "extKeyUsageToString extUsages = extKeyUsage_loop extUsages []"

subsection \<open>The renderers\<close>

text \<open>The loop over the conditions, in \<open>IssuerStatus.String\<close> and in \<open>CRStatus.String\<close>.\<close>

fun conditionMsg_loop :: "Condition list \<Rightarrow> string \<Rightarrow> string" where
  "conditionMsg_loop [] conditionMsg = conditionMsg"
| "conditionMsg_loop (con # cons) conditionMsg =
     conditionMsg_loop cons
       (conditionMsg @ Sprintf ''  %s: %s, Reason: %s, Message: %s\<newline>''
          [Str (Type con), Str (Status con), Str (Reason con), Str (Message con)])"

definition issuerFormat :: string where
  "issuerFormat = ''Issuer:\<newline>  Name: %s\<newline>  Kind: %s\<newline>  Conditions:\<newline>  %s''"

definition IssuerStatus_String :: "IssuerStatus \<Rightarrow> string" where
  "IssuerStatus_String issuerStatus =
     (case IssuerStatus.Error issuerStatus of
        Some e \<Rightarrow> error_Error e
      | None \<Rightarrow>
          (let conditionMsg = conditionMsg_loop (IssuerStatus.Conditions issuerStatus) [];
               conditionMsg' =
                 (if conditionMsg = [] then ''  No Conditions set\<newline>'' else conditionMsg)
           in Sprintf issuerFormat
                [Str (IssuerStatus.Name issuerStatus), Str (Kind issuerStatus),
                 Str conditionMsg']))"

definition secretFormat :: string where
  "secretFormat = ''Secret:\<newline>  Name: %s\<newline>  Issuer Country: %s\<newline>  Issuer Organisation: %s\<newline>  Issuer Common Name: %s\<newline>  Key Usage: %s\<newline>  Extended Key Usages: %s\<newline>  Public Key Algorithm: %s\<newline>  Signature Algorithm: %s\<newline>  Subject Key ID: %s\<newline>  Authority Key ID: %s\<newline>  Serial Number: %s\<newline>''"

text \<open>
  \<open>SecretStatus.String\<close>. The names of the two algorithms come from the \<open>String\<close> methods
  of crypto/x509, which the function takes as arguments. Reading the bytes of a serial
  number that is nil panics.
\<close>

datatype panic = NilPointerDereference

definition SecretStatus_String ::
  "(int \<Rightarrow> string) \<Rightarrow> (int \<Rightarrow> string) \<Rightarrow> SecretStatus \<Rightarrow> panic + string" where
  "SecretStatus_String PublicKeyAlgorithm_String SignatureAlgorithm_String secretStatus =
     (case SecretStatus.Error secretStatus of
        Some e \<Rightarrow> Inr (error_Error e)
      | None \<Rightarrow>
          (let (extKeyUsageString, err) =
                 extKeyUsageToString (SecretStatus.ExtKeyUsage secretStatus);
               extKeyUsageString' =
                 (case err of Some e \<Rightarrow> error_Error e | None \<Rightarrow> extKeyUsageString)
           in case SecretStatus.SerialNumber secretStatus of
                None \<Rightarrow> Inl NilPointerDereference
              | Some serial \<Rightarrow>
                  Inr (Sprintf secretFormat
                    [Str (SecretStatus.Name secretStatus),
                     Str (strings_Join (IssuerCountry secretStatus) '', ''),
                     Str (strings_Join (IssuerOrganisation secretStatus) '', ''),
                     Str (IssuerCommonName secretStatus),
                     Str (keyUsageToString (SecretStatus.KeyUsage secretStatus)),
                     Str extKeyUsageString',
                     Str (PublicKeyAlgorithm_String
                            (SecretStatus.PublicKeyAlgorithm secretStatus)),
                     Str (SignatureAlgorithm_String
                            (SecretStatus.SignatureAlgorithm secretStatus)),
                     Str (hex_EncodeToString (SecretStatus.SubjectKeyId secretStatus)),
                     Str (hex_EncodeToString (SecretStatus.AuthorityKeyId secretStatus)),
                     Str (hex_EncodeToString (big_Int_Bytes serial))])))"

definition crFormat :: string where
  "crFormat = ''\<newline>  Name: %s\<newline>  Namespace: %s\<newline>  Conditions:\<newline>  %s''"

text \<open>
  \<open>CRStatus.String\<close>. \<open>util.DescribeEvents\<close> is not among the sources: the function takes
  as its first argument what the describer, given the events and the level, leaves in
  the buffer once the tab writer is flushed. The result is the returned string and the
  bytes written to the standard output.
\<close>

definition CRStatus_String ::
  "(EventList option \<Rightarrow> int \<Rightarrow> string) \<Rightarrow> CRStatus \<Rightarrow> string \<times> string" where
  "CRStatus_String DescribeEvents crStatus =
     (case CRStatus.Error crStatus of
        Some e \<Rightarrow> (error_Error e, [])
      | None \<Rightarrow>
          (let conditionMsg = conditionMsg_loop (CRStatus.Conditions crStatus) [];
               conditionMsg' =
                 (if conditionMsg = [] then ''  No Conditions set\<newline>'' else conditionMsg);
               infos = Sprintf crFormat
                 [Str (CRStatus.Name crStatus), Str (CRStatus.Namespace crStatus),
                  Str conditionMsg'];
               infos' = Sprintf ''CertificateRequest:%s'' [Str infos];
               buf = DescribeEvents (CRStatus.Events crStatus) 1
           in (infos' @ buf, fmt_Println_bytes buf)))"

subsection \<open>The words of the specification\<close>

text \<open>
  The labels that the specification gives a key usage: of the bits below \<open>n\<close> that are
  set, the label of each, the smallest bit first.
\<close>

definition keyUsage_labels :: "nat \<Rightarrow> int \<Rightarrow> string list" where
  "keyUsage_labels n usage =
     map (\<lambda>k. map_index keyUsageToStringMap (2 ^ k)) (filter (bit usage) [0..<n])"

text \<open>The powers of two below \<open>2 ^ n\<close>, the largest first.\<close>

definition keyUsage_values :: "nat \<Rightarrow> int list" where
  "keyUsage_values n = map (\<lambda>k. 2 ^ k) (rev [0..<n])"

text \<open>
  The line of a condition, and the block of the conditions of a status: the literal line
  when there is none, else the lines in the order of the list.
\<close>

definition condition_line :: "Condition \<Rightarrow> string" where
  "condition_line con =
     ''  '' @ Type con @ '': '' @ Status con @ '', Reason: '' @ Reason con
       @ '', Message: '' @ Message con @ ''\<newline>''"

definition conditions_block :: "Condition list \<Rightarrow> string" where
  "conditions_block cons =
     (if cons = [] then ''  No Conditions set\<newline>'' else concat (map condition_line cons))"

text \<open>
  The number that a string of hexadecimal digits writes, and the number that a sequence
  of bytes writes with the most significant byte first.
\<close>

definition hex_digit_value :: "char \<Rightarrow> nat" where
  "hex_digit_value c = length (takeWhile (\<lambda>d. d \<noteq> c) hextable)"

definition hex_value :: "string \<Rightarrow> nat" where
  "hex_value s = foldl (\<lambda>a c. 16 * a + hex_digit_value c) 0 s"

definition bytes_value :: "byte list \<Rightarrow> nat" where
  "bytes_value b = foldl (\<lambda>a v. 256 * a + unat v) 0 b"

text \<open>
  A name that \<open>%q\<close> copies as it is: printable ASCII characters, none of them a double
  quote or a backslash. The names that Kubernetes accepts are of this kind.
\<close>

definition plain_name :: "string \<Rightarrow> bool" where
  "plain_name s =
     list_all (\<lambda>c. 0x20 \<le> (of_char c :: nat) \<and> (of_char c :: nat) < 0x7F
                 \<and> (of_char c :: nat) \<noteq> 0x22 \<and> (of_char c :: nat) \<noteq> 0x5C) s"

text \<open>The builder \<open>&CertificateStatusBuilder{}\<close>, and a decoder that rejects every input.\<close>

definition zero_CertificateStatusBuilder :: CertificateStatusBuilder where
  "zero_CertificateStatusBuilder =
     \<lparr>CertificateStatusBuilder.Name = [], Namespace = [], CreationTime = 0, Conditions = [],
      DNSNames = [], Events = None, NotBefore = None, NotAfter = None, RenewalTime = None,
      IssuerKind = [], IssuerStatus = None, SecretStatus = None, CRStatus = None\<rparr>"

definition decode_fails :: "byte list \<Rightarrow> error + x509_Certificate" where
  "decode_fails certData = Inl (errorString ''no PEM data'')"

section \<open>The builder: what a call changes\<close>

text \<open>
  C3. A builder method given an error that is not nil puts into its own sub-report the
  failed status carrying exactly that error, every other field of it at its zero value,
  and leaves the rest of the builder as it was: \<open>withIssuer\<close> and \<open>withClusterIssuer\<close>
  write \<open>IssuerStatus\<close> only, \<open>withSecret\<close> writes \<open>SecretStatus\<close> only, and \<open>withCR\<close>
  writes \<open>CRStatus\<close> only.
\<close>

theorem with_error_isolation:
  "withIssuer builder issuer (Some e) =
     builder\<lparr>IssuerStatus := Some (zero_IssuerStatus\<lparr>IssuerStatus.Error := Some e\<rparr>)\<rparr>
   \<and> withClusterIssuer builder clusterIssuer (Some e) =
     builder\<lparr>IssuerStatus := Some (zero_IssuerStatus\<lparr>IssuerStatus.Error := Some e\<rparr>)\<rparr>
   \<and> withSecret IsPrint DecodeX509CertificateBytes builder secret (Some e) =
     builder\<lparr>SecretStatus := Some (zero_SecretStatus\<lparr>SecretStatus.Error := Some e\<rparr>)\<rparr>
   \<and> withCR builder req events (Some e) =
     builder\<lparr>CRStatus := Some (zero_CRStatus\<lparr>CRStatus.Error := Some e\<rparr>)\<rparr>"
  by (simp add: withIssuer_def withClusterIssuer_def withSecret_def withCR_def)

text \<open>
  C6. \<open>withCR\<close> with a nil error and a request sets \<open>CRStatus\<close> to the ok status made of
  the name, the namespace and the conditions of the request, and overwrites the events
  of the builder with the events it is given. With an error, or with no request, the
  events of the builder stay as they were.
\<close>

theorem withCR_events:
  "withCR builder (Some r) events None =
     builder\<lparr>CertificateStatusBuilder.Events := events,
       CRStatus := Some
         \<lparr>CRStatus.Error = None, Name = CertificateRequest.Name r,
          Namespace = CertificateRequest.Namespace r,
          Conditions = CertificateRequest.Status_Conditions r, Events = None\<rparr>\<rparr>
   \<and> CertificateStatusBuilder.Events (withCR builder req events (Some e)) =
       CertificateStatusBuilder.Events builder
   \<and> CertificateStatusBuilder.Events (withCR builder None events err) =
       CertificateStatusBuilder.Events builder"
  by (simp add: withCR_def zero_CRStatus_def split: option.splits)

subsection \<open>The errors that withSecret makes\<close>

lemma quote_loop_plain: "plain_name s \<Longrightarrow> quote_loop IsPrint s = s"
  by (induction s)
    (simp_all add: plain_name_def RuneError_def appendEscapedRune_def unicode_IsPrint_def)

lemma strconv_Quote_plain:
  "plain_name s \<Longrightarrow> strconv_Quote IsPrint s = CHR 0x22 # s @ [CHR 0x22]"
  by (simp add: strconv_Quote_def quote_loop_plain)

lemma Errorf_not_set:
  "fmt_Errorf ''error: 'tls.crt' of Secret %q is not set\<newline>'' [fmt_q IsPrint name] =
     errorString (''error: 'tls.crt' of Secret '' @ strconv_Quote IsPrint name
       @ '' is not set\<newline>'')"
  by (simp add: fmt_Errorf_def fmt_q_def)

lemma Errorf_parsing:
  "fmt_Errorf ''error when parsing 'tls.crt' of Secret %q: %s\<newline>''
     [fmt_q IsPrint name, Str msg] =
     errorString (''error when parsing 'tls.crt' of Secret '' @ strconv_Quote IsPrint name
       @ '': '' @ msg @ ''\<newline>'')"
  by (simp add: fmt_Errorf_def fmt_q_def)

lemma sublist_between: "sublist name (before @ [q] @ name @ [q'] @ rest)"
proof -
  have "sublist name ((before @ [q]) @ name @ ([q'] @ rest))"
    by (rule sublist_appendI)
  then show ?thesis by simp
qed

text \<open>
  C8. For a Secret with a plain name, as every name that Kubernetes accepts is:
  \<open>withSecret\<close> with a nil error and a \<open>tls.crt\<close> that is missing or empty sets the
  failed status whose message is "error: 'tls.crt' of Secret", the name between double
  quotes, and "is not set"; so the message contains the name and mentions the field.
  When the bytes are there and the decoder fails on them, the message is "error when
  parsing 'tls.crt' of Secret", the name between double quotes, a colon and the message
  of the decoder's error; so it names the Secret and carries the parse failure. In both
  cases nothing else of the builder changes.
\<close>

theorem withSecret_errors:
  "plain_name (Secret.Name s) \<longrightarrow>
     (Data s ''tls.crt'' = None \<or> Data s ''tls.crt'' = Some [] \<longrightarrow>
        withSecret IsPrint DecodeX509CertificateBytes builder (Some s) None =
          builder\<lparr>SecretStatus := Some (zero_SecretStatus\<lparr>SecretStatus.Error := Some
            (errorString (''error: 'tls.crt' of Secret '' @ [CHR 0x22] @ Secret.Name s
               @ [CHR 0x22] @ '' is not set\<newline>''))\<rparr>)\<rparr>
        \<and> sublist (Secret.Name s) (''error: 'tls.crt' of Secret '' @ [CHR 0x22]
               @ Secret.Name s @ [CHR 0x22] @ '' is not set\<newline>''))
     \<and> (Data s ''tls.crt'' = Some certData \<and> certData \<noteq> []
          \<and> DecodeX509CertificateBytes certData = Inl e \<longrightarrow>
        withSecret IsPrint DecodeX509CertificateBytes builder (Some s) None =
          builder\<lparr>SecretStatus := Some (zero_SecretStatus\<lparr>SecretStatus.Error := Some
            (errorString (''error when parsing 'tls.crt' of Secret '' @ [CHR 0x22]
               @ Secret.Name s @ [CHR 0x22] @ '': '' @ error_Error e @ ''\<newline>''))\<rparr>)\<rparr>
        \<and> sublist (Secret.Name s) (''error when parsing 'tls.crt' of Secret '' @ [CHR 0x22]
               @ Secret.Name s @ [CHR 0x22] @ '': '' @ error_Error e @ ''\<newline>'')
        \<and> sublist (error_Error e) (''error when parsing 'tls.crt' of Secret '' @ [CHR 0x22]
               @ Secret.Name s @ [CHR 0x22] @ '': '' @ error_Error e @ ''\<newline>''))"
proof -
  have parse: "sublist (error_Error e) ((''error when parsing 'tls.crt' of Secret ''
      @ [CHR 0x22] @ Secret.Name s @ [CHR 0x22] @ '': '') @ error_Error e @ ''\<newline>'')"
    by (rule sublist_appendI)
  show ?thesis
    using sublist_between [of "Secret.Name s" "''error: 'tls.crt' of Secret ''" "CHR 0x22"
        "CHR 0x22" "'' is not set\<newline>''"]
      sublist_between [of "Secret.Name s" "''error when parsing 'tls.crt' of Secret ''"
        "CHR 0x22" "CHR 0x22" "'': '' @ error_Error e @ ''\<newline>''"]
      parse
    by (auto simp add: withSecret_def Errorf_not_set Errorf_parsing strconv_Quote_plain
        simp del: Sprintf.simps)
qed

theorem withSecret_errors_witness:
  "withSecret (\<lambda>r. False) decode_fails zero_CertificateStatusBuilder
     (Some \<lparr>Secret.Name = ''my-tls'', Data = Map.empty\<rparr>) None =
     zero_CertificateStatusBuilder\<lparr>SecretStatus := Some (zero_SecretStatus
       \<lparr>SecretStatus.Error := Some (errorString
          (''error: 'tls.crt' of Secret '' @ [CHR 0x22] @ ''my-tls'' @ [CHR 0x22]
             @ '' is not set\<newline>''))\<rparr>)\<rparr>
   \<and> withSecret (\<lambda>r. False) decode_fails zero_CertificateStatusBuilder
     (Some \<lparr>Secret.Name = ''my-tls'', Data = [''tls.crt'' \<mapsto> [1, 2, 3]]\<rparr>) None =
     zero_CertificateStatusBuilder\<lparr>SecretStatus := Some (zero_SecretStatus
       \<lparr>SecretStatus.Error := Some (errorString
          (''error when parsing 'tls.crt' of Secret '' @ [CHR 0x22] @ ''my-tls'' @ [CHR 0x22]
             @ '': no PEM data\<newline>''))\<rparr>)\<rparr>
   \<and> sublist ''my-tls'' (''error: 'tls.crt' of Secret '' @ [CHR 0x22] @ ''my-tls''
         @ [CHR 0x22] @ '' is not set\<newline>'')"
  using withSecret_errors [of "\<lparr>Secret.Name = ''my-tls'', Data = Map.empty\<rparr>"
      "\<lambda>r. False" decode_fails zero_CertificateStatusBuilder]
    withSecret_errors [of "\<lparr>Secret.Name = ''my-tls'', Data = [''tls.crt'' \<mapsto> [1, 2, 3]]\<rparr>"
      "\<lambda>r. False" decode_fails zero_CertificateStatusBuilder "[1, 2, 3]"
      "errorString ''no PEM data''"]
  by (simp add: plain_name_def decode_fails_def)

lemma char_of_quote: "char_of (0x22 :: nat) = CHR 0x22" "char_of (0x5C :: nat) = CHR 0x5C"
  using char_of_char [of "CHR 0x22", where ?'a = nat] char_of_char [of "CHR 0x5C", where ?'a = nat]
  by simp_all

text \<open>
  Outside the plain names \<open>%q\<close> writes escapes: a double quote inside the name gets a
  backslash, and a byte that starts no UTF-8 encoding is written as its two digits.
\<close>

lemma strconv_Quote_escapes:
  "strconv_Quote IsPrint [CHR ''a'', CHR 0x22, CHR ''b''] =
     [CHR 0x22, CHR ''a'', CHR 0x5C, CHR 0x22, CHR ''b'', CHR 0x22]
   \<and> strconv_Quote IsPrint [CHR 0xFF] = [CHR 0x22, CHR 0x5C, CHR ''x'', CHR ''f'', CHR ''f'', CHR 0x22]
   \<and> strconv_Quote IsPrint [CHR 0x0A, CHR 0x01] =
     [CHR 0x22, CHR 0x5C, CHR ''n'', CHR 0x5C, CHR ''x'', CHR ''0'', CHR ''1'', CHR 0x22]"
  by (simp add: strconv_Quote_def RuneError_def appendEscapedRune_def unicode_IsPrint_def
      DecodeRuneInString_def hextable_def char_of_quote)

section \<open>The renderers of a failed status\<close>

text \<open>
  C5. A status whose \<open>Error\<close> is not nil renders as the message of that error and nothing
  else, whatever its other fields hold: so do \<open>IssuerStatus.String\<close>,
  \<open>SecretStatus.String\<close> (which does not panic there) and \<open>CRStatus.String\<close> (which
  writes nothing to the standard output there).
\<close>

theorem failed_status_String:
  "(IssuerStatus.Error issuerStatus = Some e \<longrightarrow>
      IssuerStatus_String issuerStatus = error_Error e)
   \<and> (SecretStatus.Error secretStatus = Some e \<longrightarrow>
      SecretStatus_String PublicKeyAlgorithm_String SignatureAlgorithm_String secretStatus =
        Inr (error_Error e))
   \<and> (CRStatus.Error crStatus = Some e \<longrightarrow>
      CRStatus_String DescribeEvents crStatus = (error_Error e, []))"
  by (simp add: IssuerStatus_String_def SecretStatus_String_def CRStatus_String_def)

theorem failed_status_String_witness:
  "IssuerStatus_String
     \<lparr>IssuerStatus.Error = Some (errorString ''issuer not found''), Name = ''ca'',
      Kind = ''Issuer'',
      Conditions = [\<lparr>Type = ''Ready'', Status = ''True'', Reason = ''r'', Message = ''m''\<rparr>]\<rparr> =
     ''issuer not found''
   \<and> SecretStatus_String (\<lambda>a. ''RSA'') (\<lambda>a. ''SHA256-RSA'')
     (zero_SecretStatus\<lparr>SecretStatus.Error := Some (errorString ''secret not found''),
        SecretStatus.Name := ''tls'', SecretStatus.KeyUsage := 5\<rparr>) =
     Inr ''secret not found''
   \<and> CRStatus_String (\<lambda>events level. ''Events:  <none>'')
     \<lparr>CRStatus.Error = Some (errorString ''request not found''), Name = ''cr'',
      Namespace = ''ns'', Conditions = [], Events = None\<rparr> =
     (''request not found'', [])"
  using failed_status_String
    [of "\<lparr>IssuerStatus.Error = Some (errorString ''issuer not found''), Name = ''ca'',
          Kind = ''Issuer'',
          Conditions = [\<lparr>Type = ''Ready'', Status = ''True'', Reason = ''r'', Message = ''m''\<rparr>]\<rparr>"
        "errorString ''issuer not found''"]
    failed_status_String
    [of _ "errorString ''secret not found''"
        "zero_SecretStatus\<lparr>SecretStatus.Error := Some (errorString ''secret not found''),
           SecretStatus.Name := ''tls'', SecretStatus.KeyUsage := 5\<rparr>"
        "\<lambda>a. ''RSA''" "\<lambda>a. ''SHA256-RSA''"]
    failed_status_String
    [of _ "errorString ''request not found''" _ _ _
        "\<lparr>CRStatus.Error = Some (errorString ''request not found''), Name = ''cr'',
          Namespace = ''ns'', Conditions = [], Events = None\<rparr>"
        "\<lambda>events level. ''Events:  <none>''"]
  by (simp add: zero_SecretStatus_def)

section \<open>The renderers of an ok status\<close>

lemma Sprintf_condition:
  "Sprintf ''  %s: %s, Reason: %s, Message: %s\<newline>''
     [Str (Type con), Str (Status con), Str (Reason con), Str (Message con)] =
   condition_line con"
  by (simp add: condition_line_def)

lemma conditionMsg_loop_concat:
  "conditionMsg_loop cons conditionMsg = conditionMsg @ concat (map condition_line cons)"
  by (induction cons arbitrary: conditionMsg)
    (simp_all add: Sprintf_condition del: Sprintf.simps)

lemma condition_line_not_empty: "condition_line con \<noteq> []"
  by (simp add: condition_line_def)

lemma conditionMsg_block:
  "(if conditionMsg_loop cons [] = [] then ''  No Conditions set\<newline>''
    else conditionMsg_loop cons []) = conditions_block cons"
  by (cases cons)
    (simp_all add: conditionMsg_loop_concat conditions_block_def condition_line_not_empty)

lemma Sprintf_issuerFormat:
  "Sprintf issuerFormat [Str name, Str kind, Str msg] =
     ''Issuer:\<newline>  Name: '' @ name @ ''\<newline>  Kind: '' @ kind
       @ ''\<newline>  Conditions:\<newline>  '' @ msg"
  by (simp add: issuerFormat_def)

lemma Sprintf_crFormat:
  "Sprintf ''CertificateRequest:%s'' [Str (Sprintf crFormat [Str name, Str namespace, Str msg])] =
     ''CertificateRequest:\<newline>  Name: '' @ name @ ''\<newline>  Namespace: '' @ namespace
       @ ''\<newline>  Conditions:\<newline>  '' @ msg"
  by (simp add: crFormat_def)

text \<open>
  C9. In the ok renderings of \<open>IssuerStatus.String\<close> and \<open>CRStatus.String\<close>, the block
  after "Conditions:" is the literal line "No Conditions set" when the status has no
  condition, and else one line for each condition, ended by a newline, of the form
  "Type: Status, Reason: Reason, Message: Message", in the order of the list, with no
  condition dropped, merged or moved.
\<close>

theorem conditions_rendering:
  "(IssuerStatus.Error issuerStatus = None \<longrightarrow>
      IssuerStatus_String issuerStatus =
        ''Issuer:\<newline>  Name: '' @ IssuerStatus.Name issuerStatus
          @ ''\<newline>  Kind: '' @ Kind issuerStatus
          @ ''\<newline>  Conditions:\<newline>  ''
          @ conditions_block (IssuerStatus.Conditions issuerStatus))
   \<and> (CRStatus.Error crStatus = None \<longrightarrow>
      fst (CRStatus_String DescribeEvents crStatus) =
        ''CertificateRequest:\<newline>  Name: '' @ CRStatus.Name crStatus
          @ ''\<newline>  Namespace: '' @ CRStatus.Namespace crStatus
          @ ''\<newline>  Conditions:\<newline>  '' @ conditions_block (CRStatus.Conditions crStatus)
          @ DescribeEvents (CRStatus.Events crStatus) 1)"
  by (simp add: IssuerStatus_String_def CRStatus_String_def Let_def conditionMsg_block
      Sprintf_issuerFormat Sprintf_crFormat del: Sprintf.simps)

theorem conditions_rendering_witness:
  "IssuerStatus_String
     \<lparr>IssuerStatus.Error = None, Name = ''ca'', Kind = ''Issuer'', Conditions = []\<rparr> =
     ''Issuer:\<newline>  Name: ca\<newline>  Kind: Issuer\<newline>  Conditions:\<newline>    No Conditions set\<newline>''
   \<and> fst (CRStatus_String (\<lambda>events level. ''Events:  <none>\<newline>'')
     \<lparr>CRStatus.Error = None, Name = ''cr'', Namespace = ''ns'',
      Conditions =
        [\<lparr>Type = ''Ready'', Status = ''True'', Reason = ''Issued'',
          Message = ''Certificate issued''\<rparr>,
         \<lparr>Type = ''Approved'', Status = ''True'', Reason = ''a'', Message = ''b''\<rparr>,
         \<lparr>Type = ''Ready'', Status = ''True'', Reason = ''Issued'',
          Message = ''Certificate issued''\<rparr>],
      Events = None\<rparr>) =
     ''CertificateRequest:\<newline>  Name: cr\<newline>  Namespace: ns\<newline>  Conditions:\<newline>    Ready: True, Reason: Issued, Message: Certificate issued\<newline>  Approved: True, Reason: a, Message: b\<newline>  Ready: True, Reason: Issued, Message: Certificate issued\<newline>Events:  <none>\<newline>''"
  using conditions_rendering
    [of "\<lparr>IssuerStatus.Error = None, Name = ''ca'', Kind = ''Issuer'', Conditions = []\<rparr>"
      "\<lparr>CRStatus.Error = None, Name = ''cr'', Namespace = ''ns'',
        Conditions =
          [\<lparr>Type = ''Ready'', Status = ''True'', Reason = ''Issued'',
            Message = ''Certificate issued''\<rparr>,
           \<lparr>Type = ''Approved'', Status = ''True'', Reason = ''a'', Message = ''b''\<rparr>,
           \<lparr>Type = ''Ready'', Status = ''True'', Reason = ''Issued'',
            Message = ''Certificate issued''\<rparr>],
        Events = None\<rparr>"
      "\<lambda>events level. ''Events:  <none>\<newline>''"]
  by (simp add: conditions_block_def condition_line_def)

subsection \<open>What CRStatus.String writes to the standard output\<close>

lemma fmt_Println_bytes_not_empty: "fmt_Println_bytes b \<noteq> []"
  by (simp add: fmt_Println_bytes_def)

text \<open>
  C4. Rendering is meant to have no effect but the string it returns. \<open>CRStatus.String\<close>
  on an ok status does have one, whatever the event describer is: it writes the bytes of
  the rendered events, in decimal between brackets, to the standard output, and what it
  writes is never empty.
\<close>

theorem CRStatus_String_prints:
  "snd (CRStatus_String DescribeEvents (crStatus\<lparr>CRStatus.Error := None\<rparr>)) =
     fmt_Println_bytes (DescribeEvents (CRStatus.Events crStatus) 1)
   \<and> snd (CRStatus_String DescribeEvents (crStatus\<lparr>CRStatus.Error := None\<rparr>)) \<noteq> []"
  by (simp add: CRStatus_String_def Let_def fmt_Println_bytes_not_empty)

lemma CRStatus_String_prints_example:
  "CRStatus_String (\<lambda>events level. ''Events:  <none>\<newline>'')
     \<lparr>CRStatus.Error = None, Name = ''cr'', Namespace = ''ns'', Conditions = [],
      Events = None\<rparr> =
     (''CertificateRequest:\<newline>  Name: cr\<newline>  Namespace: ns\<newline>  Conditions:\<newline>    No Conditions set\<newline>Events:  <none>\<newline>'',
      ''[69 118 101 110 116 115 58 32 32 60 110 111 110 101 62 10]\<newline>'')"
  by (simp add: CRStatus_String_def Let_def crFormat_def fmt_Println_bytes_def decimal.simps)

section \<open>The decoder of key usages\<close>

text \<open>
  C7. \<open>keyUsageToString\<close> renders 0 as the empty string, 1 as "Digital Signature", 3 as
  "Digital Signature, Content Commitment" (the label of the smaller bit first, after the
  labels are reversed) and 256 as "Decipher Only".
\<close>

theorem keyUsageToString_examples:
  "keyUsageToString 0 = []
   \<and> keyUsageToString 1 = ''Digital Signature''
   \<and> keyUsageToString 3 = ''Digital Signature, Content Commitment''
   \<and> keyUsageToString 256 = ''Decipher Only''"
  by (simp add: keyUsageToString_def keyUsagePossibleValues_def keyUsage_reverse.simps
      map_index_def keyUsageToStringMap_def)

subsection \<open>The second loop reverses the labels\<close>

lemma keyUsage_reverse_length: "length (keyUsage_reverse i xs) = length xs"
proof (induction i xs rule: keyUsage_reverse.induct)
  case (1 i xs)
  show ?case
  proof (cases "i < length xs div 2")
    case True
    with 1 show ?thesis
      by (subst keyUsage_reverse.simps) (simp add: Let_def)
  next
    case False
    then show ?thesis
      by (subst keyUsage_reverse.simps) simp
  qed
qed

lemma keyUsage_reverse_nth:
  "j < length xs \<Longrightarrow>
   keyUsage_reverse i xs ! j =
     (if i \<le> j \<and> j < length xs - i then xs ! (length xs - 1 - j) else xs ! j)"
proof (induction i xs arbitrary: j rule: keyUsage_reverse.induct)
  case (1 i xs)
  show ?case
  proof (cases "i < length xs div 2")
    case True
    define opp where "opp = length xs - 1 - i"
    define ys where "ys = xs[i := xs ! opp, opp := xs ! i]"
    have len: "length ys = length xs" by (simp add: ys_def)
    have io: "i < opp" "opp < length xs" using True by (auto simp: opp_def)
    have step: "keyUsage_reverse i xs = keyUsage_reverse (i + 1) ys"
      using True by (subst keyUsage_reverse.simps) (simp add: Let_def ys_def opp_def)
    have ih: "keyUsage_reverse (i + 1) ys ! j =
      (if i + 1 \<le> j \<and> j < length ys - (i + 1) then ys ! (length ys - 1 - j) else ys ! j)"
      using "1.IH" [OF True, of opp j] "1.prems" len by (simp add: opp_def ys_def)
    show ?thesis
      unfolding step ih len using io "1.prems"
      by (auto simp: ys_def opp_def nth_list_update)
  next
    case False
    have mid: "length xs - 1 - j = j" if "i \<le> j" "j < length xs - i"
      using False that by arith
    from False have stop: "keyUsage_reverse i xs = xs"
      by (subst keyUsage_reverse.simps) simp
    show ?thesis
      unfolding stop using mid by auto
  qed
qed

lemma keyUsage_reverse_rev: "keyUsage_reverse 0 xs = rev xs"
  by (rule nth_equalityI) (simp_all add: keyUsage_reverse_length keyUsage_reverse_nth rev_nth)

subsection \<open>The first loop reads the bits of a usage below 512\<close>

lemma keyUsage_labels_zero: "take_bit n usage = 0 \<Longrightarrow> keyUsage_labels n usage = []"
proof -
  assume z: "take_bit n usage = 0"
  have "\<not> bit usage k" if "k < n" for k
  proof -
    have "bit (take_bit n usage) k = bit usage k"
      using that by (simp add: bit_take_bit_iff)
    with z show ?thesis by simp
  qed
  then show ?thesis
    by (simp add: keyUsage_labels_def filter_empty_conv)
qed

lemma keyUsage_decode_bits:
  "keyUsage_decode (keyUsage_values n) (take_bit n usage) acc =
     acc @ rev (keyUsage_labels n usage)"
proof (induction n arbitrary: acc)
  case 0
  then show ?case
    by (simp add: keyUsage_values_def keyUsage_labels_def)
next
  case (Suc n)
  have vals: "keyUsage_values (Suc n) = 2 ^ n # keyUsage_values n"
    by (simp add: keyUsage_values_def)
  have tb: "take_bit (Suc n) usage = 2 ^ n * of_bool (bit usage n) + take_bit n usage"
    by (rule take_bit_Suc_from_most)
  have lt: "(2 ^ n \<le> take_bit n usage) = False"
    by (simp add: not_le)
  have labs: "keyUsage_labels (Suc n) usage =
      keyUsage_labels n usage
        @ (if bit usage n then [map_index keyUsageToStringMap (2 ^ n)] else [])"
    by (simp add: keyUsage_labels_def)
  show ?case
  proof (cases "bit usage n")
    case True
    then have tb': "take_bit (Suc n) usage = 2 ^ n + take_bit n usage"
      using tb by simp
    show ?thesis
    proof (cases "take_bit n usage = 0")
      case z: True
      then show ?thesis
        using True tb' labs keyUsage_labels_zero [OF z] by (simp add: vals)
    next
      case nz: False
      then show ?thesis
        using True tb' labs lt Suc.IH by (simp add: vals)
    qed
  next
    case False
    then have tb': "take_bit (Suc n) usage = take_bit n usage"
      using tb by simp
    show ?thesis
    proof (cases "take_bit n usage = 0")
      case z: True
      then show ?thesis
        using False tb' labs keyUsage_labels_zero [OF z] by (simp add: vals)
    next
      case nz: False
      then show ?thesis
        using False tb' labs lt Suc.IH by (simp add: vals)
    qed
  qed
qed

lemma keyUsagePossibleValues_values: "keyUsagePossibleValues = keyUsage_values 9"
  by (simp add: keyUsagePossibleValues_def keyUsage_values_def upt_rec)

lemma keyUsageToString_low:
  assumes "0 \<le> usage" and "usage < 512"
  shows "keyUsageToString usage = strings_Join (keyUsage_labels 9 usage) '', ''"
proof -
  have "take_bit 9 usage = usage"
    using assms by (simp add: take_bit_int_eq_self)
  then have "keyUsage_decode keyUsagePossibleValues usage [] = rev (keyUsage_labels 9 usage)"
    using keyUsage_decode_bits [of 9 usage "[]"] by (simp add: keyUsagePossibleValues_values)
  then show ?thesis
    by (simp add: keyUsageToString_def keyUsage_reverse_rev)
qed

subsection \<open>From 511 on the first loop takes every value\<close>

lemma keyUsage_decode_high:
  "511 \<le> usage \<Longrightarrow>
   keyUsage_decode keyUsagePossibleValues usage [] =
     map (map_index keyUsageToStringMap) keyUsagePossibleValues"
  by (simp add: keyUsagePossibleValues_def)

lemma keyUsageToString_high:
  "511 \<le> usage \<Longrightarrow>
   keyUsageToString usage =
     ''Digital Signature, Content Commitment, Key Encipherment, Data Encipherment, Key Agreement, Cert Sign, CRL Sign, Encipher Only, Decipher Only''"
  by (simp add: keyUsageToString_def keyUsage_decode_high keyUsage_reverse_rev)
    (simp add: keyUsagePossibleValues_def map_index_def keyUsageToStringMap_def)

text \<open>
  C1, as amended. For a key usage from 0 up to 511, \<open>keyUsageToString\<close> renders the labels
  of the bits that are set, the smallest bit first, joined by a comma and a space. It
  never fails, but it does not ignore the bits beyond bit 8: the first loop subtracts
  the values of the table from the whole number, so a usage of 512 or more renders all
  nine labels, as 511 does, whatever its low nine bits are.
\<close>

theorem keyUsageToString_bits:
  "(0 \<le> usage \<and> usage < 512 \<longrightarrow>
      keyUsageToString usage = strings_Join (keyUsage_labels 9 usage) '', '')
   \<and> (512 \<le> usage \<longrightarrow>
      keyUsageToString usage = keyUsageToString 511
      \<and> keyUsageToString usage =
        ''Digital Signature, Content Commitment, Key Encipherment, Data Encipherment, Key Agreement, Cert Sign, CRL Sign, Encipher Only, Decipher Only'')"
  using keyUsageToString_low [of usage] keyUsageToString_high [of usage]
    keyUsageToString_high [of 511]
  by simp

lemma keyUsage_labels_5:
  "strings_Join (keyUsage_labels 9 5) '', '' = ''Digital Signature, Key Encipherment''"
  by (simp add: keyUsage_labels_def upt_rec map_index_def keyUsageToStringMap_def)

theorem keyUsageToString_bits_witness:
  "keyUsageToString 5 = ''Digital Signature, Key Encipherment''
   \<and> keyUsageToString 513 = keyUsageToString 511
   \<and> keyUsageToString 513 =
     ''Digital Signature, Content Commitment, Key Encipherment, Data Encipherment, Key Agreement, Cert Sign, CRL Sign, Encipher Only, Decipher Only''"
  using keyUsageToString_bits [of 5] keyUsageToString_bits [of 513]
  by (simp add: keyUsage_labels_5 keyUsageToString_high)

text \<open>
  C1, as it was stated, fails for the usage 512: its low nine bits are 0, which renders
  as the empty string, and 512 renders as all nine labels.
\<close>

theorem keyUsageToString_512:
  "take_bit 9 (512 :: int) = 0
   \<and> keyUsageToString (take_bit 9 512) = []
   \<and> keyUsageToString 512 =
     ''Digital Signature, Content Commitment, Key Encipherment, Data Encipherment, Key Agreement, Cert Sign, CRL Sign, Encipher Only, Decipher Only''
   \<and> keyUsageToString 512 \<noteq> keyUsageToString (take_bit 9 512)"
proof -
  have low: "keyUsageToString (take_bit 9 512) = []"
    by (simp add: keyUsageToString_def keyUsagePossibleValues_def keyUsage_reverse.simps)
  have high: "keyUsageToString 512 =
     ''Digital Signature, Content Commitment, Key Encipherment, Data Encipherment, Key Agreement, Cert Sign, CRL Sign, Encipher Only, Decipher Only''"
    by (simp add: keyUsageToString_high)
  show ?thesis
    unfolding low high by simp
qed

section \<open>The decoder of extended key usages\<close>

lemma length_extKeyUsageStringValues: "length extKeyUsageStringValues = 14"
  by (simp add: extKeyUsageStringValues_def)

lemma extKeyUsage_loop_known:
  "list_all (\<lambda>c. 0 \<le> c \<and> c \<le> 13) extUsages \<Longrightarrow>
   extKeyUsage_loop extUsages acc =
     (strings_Join (acc @ map (\<lambda>c. extKeyUsageStringValues ! nat c) extUsages) '', '', None)"
  by (induction extUsages arbitrary: acc) (simp_all add: length_extKeyUsageStringValues)

lemma Sprintf_unknown_code:
  "Sprintf ''error when converting Extended Usages to string: encountered unknown Extended Usage with code %d'' [Num c] =
   ''error when converting Extended Usages to string: encountered unknown Extended Usage with code '' @ fmt_d c"
  by simp

lemma extKeyUsage_loop_unknown:
  "list_all (\<lambda>c. 0 \<le> c \<and> c \<le> 13) known \<Longrightarrow> c < 0 \<or> 13 < c \<Longrightarrow>
   extKeyUsage_loop (known @ c # rest) acc =
     ([], Some (errorString (''error when converting Extended Usages to string: encountered unknown Extended Usage with code '' @ fmt_d c)))"
proof (induction known arbitrary: acc)
  case Nil
  then show ?case
    by (auto simp add: length_extKeyUsageStringValues fmt_Errorf_def Sprintf_unknown_code
        simp del: Sprintf.simps)
next
  case (Cons k known)
  then show ?case
    by (simp add: length_extKeyUsageStringValues)
qed

text \<open>
  C2. When every code is from 0 to 13, \<open>extKeyUsageToString\<close> returns no error and the
  labels of the codes, each read from the table of 14 labels at its code, in the order of
  the codes and joined by a comma and a space. When a code is outside 0 to 13, and the
  codes before it are not, it returns the empty string and the error whose message ends
  with that code in decimal.
\<close>

theorem extKeyUsageToString_labels:
  "length extKeyUsageStringValues = 14
   \<and> (list_all (\<lambda>c. 0 \<le> c \<and> c \<le> 13) extUsages \<longrightarrow>
      extKeyUsageToString extUsages =
        (strings_Join (map (\<lambda>c. extKeyUsageStringValues ! nat c) extUsages) '', '', None))
   \<and> (list_all (\<lambda>c. 0 \<le> c \<and> c \<le> 13) known \<and> (c < 0 \<or> 13 < c) \<longrightarrow>
      extKeyUsageToString (known @ c # rest) =
        ([], Some (errorString (''error when converting Extended Usages to string: encountered unknown Extended Usage with code '' @ fmt_d c))))"
  using extKeyUsage_loop_known [of extUsages "[]"]
    extKeyUsage_loop_unknown [of known c rest "[]"]
  by (simp add: extKeyUsageToString_def length_extKeyUsageStringValues)

theorem extKeyUsageToString_labels_witness:
  "extKeyUsageToString [0, 1] = (''Any, Server Authentication'', None)
   \<and> extKeyUsageToString [14] = ([], Some (errorString ''error when converting Extended Usages to string: encountered unknown Extended Usage with code 14''))
   \<and> extKeyUsageToString [-1] = ([], Some (errorString ''error when converting Extended Usages to string: encountered unknown Extended Usage with code -1''))
   \<and> extKeyUsageToString [2, 13, -7, 14, 3] = ([], Some (errorString ''error when converting Extended Usages to string: encountered unknown Extended Usage with code -7''))"
  using extKeyUsageToString_labels [of "[0, 1]" "[]" 14 "[]"]
    extKeyUsageToString_labels [of "[]" "[]" "-1" "[]"]
    extKeyUsageToString_labels [of "[]" "[2, 13]" "-7" "[14, 3]"]
  by (simp add: extKeyUsageStringValues_def fmt_d_def decimal.simps)

section \<open>The hexadecimal fields of a Secret's status\<close>

lemma hex_digit_value_hextable: "k < 16 \<Longrightarrow> hex_digit_value (hextable ! k) = k"
proof -
  assume "k < 16"
  then have "k = 0 \<or> k = 1 \<or> k = 2 \<or> k = 3 \<or> k = 4 \<or> k = 5 \<or> k = 6 \<or> k = 7 \<or> k = 8
      \<or> k = 9 \<or> k = 10 \<or> k = 11 \<or> k = 12 \<or> k = 13 \<or> k = 14 \<or> k = 15"
    by presburger
  then show ?thesis
    by (auto simp add: hex_digit_value_def hextable_def)
qed

lemma hextable_nth_in: "k < 16 \<Longrightarrow> hextable ! k \<in> set hextable"
  by (rule nth_mem) (simp add: hextable_def)

lemma high_nibble: "unat (drop_bit 4 (v :: byte)) = unat v div 16"
  by (simp add: unat_drop_bit_eq drop_bit_eq_div unat_div_distrib)

lemma low_nibble: "unat ((v :: byte) AND 0x0f) = unat v mod 16"
proof -
  have "(v AND 0x0f) = take_bit 4 v"
    by (simp add: take_bit_eq_mask mask_eq_exp_minus_1)
  then show ?thesis
    by (simp add: unsigned_take_bit_eq take_bit_eq_mod unat_mod_distrib)
qed

lemma nibbles_lt: "unat (drop_bit 4 (v :: byte)) < 16" "unat ((v :: byte) AND 0x0f) < 16"
proof -
  have "unat v < 256"
    using unsigned_less [of v] by simp
  then show "unat (drop_bit 4 v) < 16"
    by (simp add: high_nibble)
  show "unat (v AND 0x0f) < 16"
    by (simp add: low_nibble)
qed

lemma hex_EncodeToString_length: "length (hex_EncodeToString src) = 2 * length src"
  by (induction src) simp_all

lemma hex_EncodeToString_digits: "set (hex_EncodeToString src) \<subseteq> set hextable"
  by (induction src) (simp_all add: hextable_nth_in nibbles_lt)

lemma hex_value_foldl:
  "foldl (\<lambda>a c. 16 * a + hex_digit_value c) a (hex_EncodeToString src) =
   foldl (\<lambda>a v. 256 * a + unat v) a src"
proof (induction src arbitrary: a)
  case Nil
  then show ?case by simp
next
  case (Cons v src)
  have "unat v < 256"
    using unsigned_less [of v] by simp
  then have hi: "hex_digit_value (hextable ! (unat v div 16)) = unat v div 16"
    by (simp add: hex_digit_value_hextable)
  have lo: "hex_digit_value (hextable ! (unat v mod 16)) = unat v mod 16"
    by (simp add: hex_digit_value_hextable)
  have eq: "16 * (16 * a + unat v div 16) + unat v mod 16 = 256 * a + unat v"
    by arith
  have "foldl (\<lambda>a c. 16 * a + hex_digit_value c) a (hex_EncodeToString (v # src)) =
      foldl (\<lambda>a c. 16 * a + hex_digit_value c)
        (16 * (16 * a + unat v div 16) + unat v mod 16) (hex_EncodeToString src)"
    by (simp only: hex_EncodeToString.simps foldl.simps high_nibble low_nibble hi lo)
  also have "\<dots> = foldl (\<lambda>a v. 256 * a + unat v) (256 * a + unat v) src"
    unfolding eq by (rule Cons.IH)
  finally show ?case
    by (simp only: foldl.simps)
qed

lemma hex_value_EncodeToString: "hex_value (hex_EncodeToString src) = bytes_value src"
  by (simp add: hex_value_def bytes_value_def hex_value_foldl)

lemma bytes_value_snoc: "bytes_value (b @ [v]) = 256 * bytes_value b + unat v"
  by (simp add: bytes_value_def)

lemma bytes_value_nat_bytes: "bytes_value (nat_bytes n) = n"
proof (induction n rule: nat_bytes.induct)
  case (1 n)
  show ?case
  proof (cases "n = 0")
    case True
    then show ?thesis
      by (subst nat_bytes.simps) (simp add: bytes_value_def)
  next
    case False
    have "unat (of_nat (n mod 256) :: byte) = n mod 256"
      by (simp add: unat_of_nat)
    with False 1 show ?thesis
      by (subst nat_bytes.simps) (simp add: bytes_value_snoc)
  qed
qed

lemma nat_bytes_no_leading_zero: "nat_bytes n \<noteq> [] \<Longrightarrow> hd (nat_bytes n) \<noteq> 0"
proof (induction n rule: nat_bytes.induct)
  case (1 n)
  show ?case
  proof (cases "n div 256 = 0")
    case True
    with "1.prems" have "0 < n" "n < 256"
      by (auto simp: nat_bytes.simps [of 0] intro: gr0I)
    then have "nat_bytes n = [of_nat n]"
      by (subst nat_bytes.simps) (simp add: nat_bytes.simps [of 0])
    moreover have "(of_nat n :: byte) \<noteq> 0"
      using \<open>0 < n\<close> \<open>n < 256\<close>
      by (simp add: of_nat_0 unat_of_nat word_eq_iff_unsigned [where ?'a = nat])
    ultimately show ?thesis by simp
  next
    case False
    then have n: "n \<noteq> 0" by auto
    have ne: "nat_bytes (n div 256) \<noteq> []"
      using False by (subst nat_bytes.simps) simp
    from "1.IH" [OF n ne] ne show ?thesis
      using n by (subst nat_bytes.simps) simp
  qed
qed

lemma Sprintf_secretFormat:
  "Sprintf secretFormat
     [Str a1, Str a2, Str a3, Str a4, Str a5, Str a6, Str a7, Str a8, Str a9, Str a10, Str a11] =
   (''Secret:\<newline>  Name: '' @ a1 @ ''\<newline>  Issuer Country: '' @ a2
      @ ''\<newline>  Issuer Organisation: '' @ a3 @ ''\<newline>  Issuer Common Name: '' @ a4
      @ ''\<newline>  Key Usage: '' @ a5 @ ''\<newline>  Extended Key Usages: '' @ a6
      @ ''\<newline>  Public Key Algorithm: '' @ a7 @ ''\<newline>  Signature Algorithm: '' @ a8
      @ ''\<newline>'')
   @ ''  Subject Key ID: '' @ a9 @ ''\<newline>  Authority Key ID: '' @ a10
   @ ''\<newline>  Serial Number: '' @ a11 @ ''\<newline>''"
  by (simp add: secretFormat_def)

lemma SecretStatus_String_ok:
  assumes "SecretStatus.Error s = None" and "SecretStatus.SerialNumber s = Some serial"
  shows "\<exists>head. SecretStatus_String pk sg s =
     Inr (head @ ''  Subject Key ID: '' @ hex_EncodeToString (SecretStatus.SubjectKeyId s)
       @ ''\<newline>  Authority Key ID: '' @ hex_EncodeToString (SecretStatus.AuthorityKeyId s)
       @ ''\<newline>  Serial Number: '' @ hex_EncodeToString (big_Int_Bytes serial) @ ''\<newline>'')"
proof -
  obtain str err where e: "extKeyUsageToString (SecretStatus.ExtKeyUsage s) = (str, err)"
    by (cases "extKeyUsageToString (SecretStatus.ExtKeyUsage s)")
  show ?thesis
    unfolding SecretStatus_String_def
    by (simp only: assms e option.case prod.case Let_def Sprintf_secretFormat) blast
qed

text \<open>
  C10. An ok \<open>SecretStatus\<close> with a serial number renders, as its last three lines, the
  Subject Key ID, the Authority Key ID and the Serial Number in hexadecimal. The serial
  number is written from the bytes of its absolute value, the most significant first and
  with no leading zero byte. Each of the three fields has two digits for a byte, all of
  them among 0 to 9 and the lowercase a to f, and they write the number that the bytes
  write.
\<close>

theorem SecretStatus_String_hex:
  "SecretStatus.Error s = None \<and> SecretStatus.SerialNumber s = Some serial \<longrightarrow>
     (\<exists>head. SecretStatus_String PublicKeyAlgorithm_String SignatureAlgorithm_String s =
        Inr (head @ ''  Subject Key ID: '' @ hex_EncodeToString (SecretStatus.SubjectKeyId s)
          @ ''\<newline>  Authority Key ID: '' @ hex_EncodeToString (SecretStatus.AuthorityKeyId s)
          @ ''\<newline>  Serial Number: '' @ hex_EncodeToString (big_Int_Bytes serial)
          @ ''\<newline>''))
     \<and> bytes_value (big_Int_Bytes serial) = nat \<bar>serial\<bar>
     \<and> (big_Int_Bytes serial \<noteq> [] \<longrightarrow> hd (big_Int_Bytes serial) \<noteq> 0)
     \<and> (\<forall>src \<in> {SecretStatus.SubjectKeyId s, SecretStatus.AuthorityKeyId s,
                  big_Int_Bytes serial}.
          length (hex_EncodeToString src) = 2 * length src
          \<and> set (hex_EncodeToString src) \<subseteq> set ''0123456789abcdef''
          \<and> hex_value (hex_EncodeToString src) = bytes_value src)"
  using SecretStatus_String_ok [of s serial PublicKeyAlgorithm_String SignatureAlgorithm_String]
    hex_EncodeToString_digits
  by (simp add: hex_EncodeToString_length hex_value_EncodeToString
      bytes_value_nat_bytes nat_bytes_no_leading_zero big_Int_Bytes_def hextable_def)

theorem SecretStatus_String_hex_witness:
  "(\<exists>head. SecretStatus_String (\<lambda>a. ''RSA'') (\<lambda>a. ''SHA256-RSA'')
       (zero_SecretStatus\<lparr>SecretStatus.Name := ''my-tls'', SubjectKeyId := [0xAB, 0x01],
          AuthorityKeyId := [0x00, 0xFF], SerialNumber := Some 255\<rparr>) =
        Inr (head @ ''  Subject Key ID: ab01\<newline>  Authority Key ID: 00ff\<newline>  Serial Number: ff\<newline>''))
   \<and> hex_EncodeToString (big_Int_Bytes 255) = ''ff''
   \<and> hex_value ''ff'' = 255"
  using SecretStatus_String_hex
    [of "zero_SecretStatus\<lparr>SecretStatus.Name := ''my-tls'', SubjectKeyId := [0xAB, 0x01],
          AuthorityKeyId := [0x00, 0xFF], SerialNumber := Some 255\<rparr>"
      255 "\<lambda>a. ''RSA''" "\<lambda>a. ''SHA256-RSA''"]
  by (simp add: zero_SecretStatus_def big_Int_Bytes_def nat_bytes.simps hextable_def
      bytes_value_def)

end
